theory Spec2Isabelle
  imports Main
begin

section \<open>The multi-step form: data model\<close>

text \<open>
  The types of \<^verbatim>\<open>multi-step-form/src/types.ts\<close>. A zod object schema is kept as data: the
  ordered list of its fields, each with the checks chained on it and the message given to
  each check (\<open>None\<close> where the source passes no message).
\<close>

datatype string_check =
    ZMin nat "string option"
  | ZMax nat "string option"
  | ZEmail "string option"

datatype field_schema =
    ZString "string_check list"
  | ZEnum "string list"

type_synonym schema = "(string \<times> field_schema) list"

definition personalInfoSchema :: schema where
  "personalInfoSchema =
     [(''firstName'', ZString [ZMin 1 (Some ''First Name is required'')]),
      (''lastName'', ZString [ZMin 1 (Some ''Last Name is required'')]),
      (''email'', ZString [ZEmail (Some ''Invalid email address'')]),
      (''phone'', ZString [ZMin 11 (Some ''Phone number is too short'')])]"

definition professionalInfoSchema :: schema where
  "professionalInfoSchema =
     [(''company'', ZString [ZMin 1 (Some ''Company is required'')]),
      (''position'', ZString [ZMin 1 (Some ''Position is required'')]),
      (''experience'', ZEnum [''0-2'', ''3-5'', ''6-10'', ''10+'']),
      (''industry'', ZString [ZMin 1 (Some ''Industry is required'')])]"

definition billingInfoSchema :: schema where
  "billingInfoSchema =
     [(''cardNumber'', ZString [ZMin 16 (Some ''Card number must be 16 digits''),
                                ZMax 16 (Some ''Card number must be 16 digits'')]),
      (''cardHolder'', ZString [ZMin 1 (Some ''Card holder name is required'')]),
      (''expiryDate'', ZString [ZMin 4 (Some ''Invalid expiry date''), ZMax 4 None]),
      (''cvv'', ZString [ZMin 3 (Some ''Invalid CVV''), ZMax 4 None])]"

text \<open>
  \<^verbatim>\<open>StepFormData\<close> is an object whose fields are all strings, and the hook holds a
  \<^verbatim>\<open>Partial<StepFormData>\<close>: a finite mapping from field name to string.
\<close>

type_synonym StepFormData = "string \<rightharpoonup> string"

datatype icon = User | Briefcase | CreditCard

record Step =
  step_id :: string
  step_name :: string
  step_icon :: icon

section \<open>The hook \<^verbatim>\<open>useMultiStepForm\<close>\<close>

definition stepSchemas :: "schema list" where
  "stepSchemas = [personalInfoSchema, professionalInfoSchema, billingInfoSchema]"

definition steps :: "Step list" where
  "steps =
     [\<lparr>step_id = ''personal'', step_name = ''Personal Info'', step_icon = User\<rparr>,
      \<lparr>step_id = ''professional'', step_name = ''Professional Info'', step_icon = Briefcase\<rparr>,
      \<lparr>step_id = ''billing'', step_name = ''Billing Info'', step_icon = CreditCard\<rparr>]"

text \<open>
  The three \<^verbatim>\<open>useState\<close> cells of the hook. \<^verbatim>\<open>currentStep\<close> is a JavaScript number that
  the code only ever adds 1 to or subtracts 1 from: an \<open>int\<close>. A JavaScript number is a
  double, which is exact on the integers below \<open>2 ^ 53\<close> in magnitude: the model and the
  code agree on those, and every state evaluated below is among them.
\<close>

record form_state =
  currentStep :: int
  formData :: StepFormData
  isSubmitted :: bool

text \<open>The initial values handed to \<^verbatim>\<open>useState\<close>: \<^verbatim>\<open>0\<close>, \<^verbatim>\<open>{}\<close>, \<^verbatim>\<open>false\<close>.\<close>

definition initialState :: form_state where
  "initialState = \<lparr>currentStep = 0, formData = Map.empty, isSubmitted = False\<rparr>"

text \<open>
  The hook reads the module constant \<^verbatim>\<open>steps\<close> only through \<^verbatim>\<open>steps.length\<close>. The
  operations below take the step table as their first argument, so that statements about
  any number of steps can be made; the hook of the source is the instance at \<open>steps\<close>.
  Each operation of this section is one call of the returned function on the state it
  was rendered from, followed by the re-render: the render-time constants
  \<^verbatim>\<open>isFirstStep\<close> and \<^verbatim>\<open>isLastStep\<close> and the value an updater receives are read from
  the same state. Calls on the handlers of an earlier render are the subject of a later
  section.
\<close>

definition isFirstStep :: "form_state \<Rightarrow> bool" where
  "isFirstStep s = (currentStep s = 0)"

definition isLastStep :: "Step list \<Rightarrow> form_state \<Rightarrow> bool" where
  "isLastStep stps s = (currentStep s = int (length stps) - 1)"

text \<open>
  \<^verbatim>\<open>stepSchemas[currentStep]\<close>: reading a JavaScript array outside its indices raises
  nothing and gives \<^verbatim>\<open>undefined\<close>, which is \<open>None\<close> here.
\<close>

definition getCurrentStepSchema :: "form_state \<Rightarrow> schema option" where
  "getCurrentStepSchema s =
     (if 0 \<le> currentStep s \<and> currentStep s < int (length stepSchemas)
      then Some (stepSchemas ! nat (currentStep s)) else None)"

definition goToNextStep :: "Step list \<Rightarrow> form_state \<Rightarrow> form_state" where
  "goToNextStep stps s =
     (if \<not> isLastStep stps s then s\<lparr>currentStep := currentStep s + 1\<rparr> else s)"

definition goToPreviousStep :: "form_state \<Rightarrow> form_state" where
  "goToPreviousStep s =
     (if \<not> isFirstStep s then s\<lparr>currentStep := currentStep s - 1\<rparr> else s)"

text \<open>The object spread \<^verbatim>\<open>{...prev, ...newData}\<close>: the keys of \<^verbatim>\<open>newData\<close> win.\<close>

definition updateFormData :: "StepFormData \<Rightarrow> form_state \<Rightarrow> form_state" where
  "updateFormData newData s = s\<lparr>formData := formData s ++ newData\<rparr>"

text \<open>
  \<^verbatim>\<open>submitForm\<close> writes its argument to the console and sets the flag; the console is
  not part of the state.
\<close>

definition submitForm :: "StepFormData \<Rightarrow> form_state \<Rightarrow> form_state" where
  "submitForm data s = s\<lparr>isSubmitted := True\<rparr>"

definition resetForm :: "form_state \<Rightarrow> form_state" where
  "resetForm s = s\<lparr>formData := Map.empty, currentStep := 0, isSubmitted := False\<rparr>"

text \<open>
  The command surface of the hook, and a run of commands in which every command is
  followed by a re-render, so that the next one is called on fresh handlers.
\<close>

datatype command =
    GoToNextStep
  | GoToPreviousStep
  | UpdateFormData StepFormData
  | SubmitForm StepFormData
  | ResetForm

fun exec :: "Step list \<Rightarrow> form_state \<Rightarrow> command \<Rightarrow> form_state" where
  "exec stps s GoToNextStep = goToNextStep stps s"
| "exec stps s GoToPreviousStep = goToPreviousStep s"
| "exec stps s (UpdateFormData d) = updateFormData d s"
| "exec stps s (SubmitForm d) = submitForm d s"
| "exec stps s ResetForm = resetForm s"

fun run :: "Step list \<Rightarrow> form_state \<Rightarrow> command list \<Rightarrow> form_state" where
  "run stps s [] = s"
| "run stps s (c # cs) = run stps (exec stps s c) cs"

section \<open>The component \<^verbatim>\<open>MultiStepForm\<close>\<close>

text \<open>
  \<^verbatim>\<open>onNext\<close>: \<open>isValid\<close> is what \<^verbatim>\<open>await trigger()\<close> returned. \<^verbatim>\<open>formData\<close> and
  \<^verbatim>\<open>isLastStep\<close> are the values of the render the handler was created in, the state \<open>s\<close>;
  here no other handler runs between the click and the end of this one, so \<open>s\<close> is also
  the pending state.
\<close>

definition onNext :: "Step list \<Rightarrow> bool \<Rightarrow> StepFormData \<Rightarrow> form_state \<Rightarrow> form_state" where
  "onNext stps isValid data s =
     (if \<not> isValid then s
      else
        let updatedData = formData s ++ data;
            s1 = updateFormData updatedData s
        in if isLastStep stps s then submitForm updatedData s1
           else goToNextStep stps s1)"

definition onPrevious :: "form_state \<Rightarrow> form_state" where
  "onPrevious s = goToPreviousStep s"

section \<open>Handlers and the render they belong to\<close>

text \<open>
  The functions the hook returns are created anew by every render. Inside them
  \<^verbatim>\<open>isFirstStep\<close>, \<^verbatim>\<open>isLastStep\<close> and \<^verbatim>\<open>formData\<close> are constants of that render, while
  an updater handed to a setter (\<^verbatim>\<open>(prev) => prev + 1\<close>, \<^verbatim>\<open>(prev) => ({...prev, ...newData})\<close>)
  receives the pending value, which earlier calls may have changed since that render.
  Below \<open>r\<close> is the state of the render that created the handler and \<open>p\<close> the pending
  state its setters act on. The operations of the previous sections are the instances
  \<open>r = p\<close>.
\<close>

definition goToNextStep_from :: "Step list \<Rightarrow> form_state \<Rightarrow> form_state \<Rightarrow> form_state" where
  "goToNextStep_from stps r p =
     (if \<not> isLastStep stps r then p\<lparr>currentStep := currentStep p + 1\<rparr> else p)"

definition goToPreviousStep_from :: "form_state \<Rightarrow> form_state \<Rightarrow> form_state" where
  "goToPreviousStep_from r p =
     (if \<not> isFirstStep r then p\<lparr>currentStep := currentStep p - 1\<rparr> else p)"

text \<open>
  \<^verbatim>\<open>updateFormData\<close>, \<^verbatim>\<open>submitForm\<close> and \<^verbatim>\<open>resetForm\<close> read nothing of their render:
  the first hands an updater to its setter, the other two write constants.
\<close>

fun exec_from :: "Step list \<Rightarrow> form_state \<Rightarrow> form_state \<Rightarrow> command \<Rightarrow> form_state" where
  "exec_from stps r p GoToNextStep = goToNextStep_from stps r p"
| "exec_from stps r p GoToPreviousStep = goToPreviousStep_from r p"
| "exec_from stps r p (UpdateFormData d) = updateFormData d p"
| "exec_from stps r p (SubmitForm d) = submitForm d p"
| "exec_from stps r p ResetForm = resetForm p"

text \<open>Commands called one after the other on the handlers of one render.\<close>

fun calls :: "Step list \<Rightarrow> form_state \<Rightarrow> form_state \<Rightarrow> command list \<Rightarrow> form_state" where
  "calls stps r p [] = p"
| "calls stps r p (c # cs) = calls stps r (exec_from stps r p c) cs"

text \<open>
  \<^verbatim>\<open>onNext\<close> is asynchronous: it is created by the render \<open>r\<close>, waits for
  \<^verbatim>\<open>trigger()\<close>, and then goes on with the \<^verbatim>\<open>formData\<close> and \<^verbatim>\<open>isLastStep\<close> of \<open>r\<close>,
  whatever has happened to the pending state \<open>p\<close> in the meantime.
\<close>

definition onNext_from ::
  "Step list \<Rightarrow> form_state \<Rightarrow> bool \<Rightarrow> StepFormData \<Rightarrow> form_state \<Rightarrow> form_state" where
  "onNext_from stps r isValid data p =
     (if \<not> isValid then p
      else
        let updatedData = formData r ++ data;
            p1 = updateFormData updatedData p
        in if isLastStep stps r then submitForm updatedData p1
           else goToNextStep_from stps r p1)"

definition onPrevious_from :: "form_state \<Rightarrow> form_state \<Rightarrow> form_state" where
  "onPrevious_from r p = goToPreviousStep_from r p"

text \<open>
  What a render shows decides which handlers a click can start. Once \<^verbatim>\<open>isSubmitted\<close>
  holds the component returns the success card, whose only button calls \<^verbatim>\<open>resetForm\<close>.
  Otherwise it renders the form: the Next/Submit button, never disabled, calls
  \<^verbatim>\<open>onNext\<close>, and the Previous button, disabled on the first step, calls \<^verbatim>\<open>onPrevious\<close>.
\<close>

definition nextShown :: "form_state \<Rightarrow> bool" where
  "nextShown r = (\<not> isSubmitted r)"

definition previousEnabled :: "form_state \<Rightarrow> bool" where
  "previousEnabled r = (\<not> isSubmitted r \<and> \<not> isFirstStep r)"

definition resetShown :: "form_state \<Rightarrow> bool" where
  "resetShown r = isSubmitted r"

text \<open>The range of \<^verbatim>\<open>currentStep\<close> for a table of steps.\<close>

definition in_range :: "Step list \<Rightarrow> form_state \<Rightarrow> bool" where
  "in_range stps s = (0 \<le> currentStep s \<and> currentStep s \<le> int (length stps) - 1)"

section \<open>The three-step scenario\<close>

text \<open>
  The inputs of the scenario: the field values entered on the personal, professional and
  billing steps, and the commands issued on the hook, in order.
\<close>

definition scenario_personal :: StepFormData where
  "scenario_personal =
     [''firstName'' \<mapsto> ''A'', ''lastName'' \<mapsto> ''B'', ''email'' \<mapsto> ''a@b.com'',
      ''phone'' \<mapsto> ''01234567890'']"

definition scenario_professional :: StepFormData where
  "scenario_professional =
     [''company'' \<mapsto> ''X'', ''position'' \<mapsto> ''Y'', ''experience'' \<mapsto> ''0-2'',
      ''industry'' \<mapsto> ''Z'']"

definition scenario_billing :: StepFormData where
  "scenario_billing =
     [''cardNumber'' \<mapsto> ''1234567812345678'', ''cardHolder'' \<mapsto> ''A B'',
      ''expiryDate'' \<mapsto> ''1225'', ''cvv'' \<mapsto> ''123'']"

definition scenario :: "command list" where
  "scenario =
     [UpdateFormData scenario_personal, GoToNextStep, GoToPreviousStep, GoToNextStep,
      UpdateFormData scenario_professional, GoToNextStep, SubmitForm scenario_billing,
      ResetForm]"

section \<open>Frame properties and the merge\<close>

lemma map_add_twice: "m ++ p ++ p = m ++ p"
  by (rule ext) (simp add: map_add_def split: option.splits)

lemma map_add_absorb: "m ++ m ++ d = m ++ d"
  by (rule ext) (simp add: map_add_def split: option.splits)

text \<open>
  Claim C3. Going back (\<^verbatim>\<open>goToPreviousStep\<close>) changes neither \<^verbatim>\<open>formData\<close> nor
  \<^verbatim>\<open>isSubmitted\<close>, from any state: every key of \<^verbatim>\<open>formData\<close> is still there with the
  value it had.
\<close>

theorem goToPreviousStep_frame:
  "formData (goToPreviousStep s) = formData s
   \<and> isSubmitted (goToPreviousStep s) = isSubmitted s"
  by (simp add: goToPreviousStep_def)

text \<open>
  Claim C4. From any state, in particular any reachable one, \<^verbatim>\<open>resetForm\<close> gives the state
  with \<^verbatim>\<open>currentStep\<close> 0, empty \<^verbatim>\<open>formData\<close> and \<^verbatim>\<open>isSubmitted\<close> false, and that is the
  state the hook starts in.
\<close>

theorem resetForm_initial:
  "resetForm s = \<lparr>currentStep = 0, formData = Map.empty, isSubmitted = False\<rparr>
   \<and> initialState = \<lparr>currentStep = 0, formData = Map.empty, isSubmitted = False\<rparr>"
  by (simp add: resetForm_def initialState_def)

text \<open>
  Claim C5. \<^verbatim>\<open>updateFormData\<close> is the shallow merge: a key of the argument gets the
  argument's value, whether or not it was there before, and every other key keeps what it
  had (or stays absent).
\<close>

theorem updateFormData_merge:
  "formData (updateFormData p s) k = (case p k of Some v \<Rightarrow> Some v | None \<Rightarrow> formData s k)"
  by (simp add: updateFormData_def map_add_def)

text \<open>
  Claim C6. \<^verbatim>\<open>updateFormData\<close> is idempotent: merging the same mapping a second time
  changes nothing.
\<close>

theorem updateFormData_idem:
  "updateFormData p (updateFormData p s) = updateFormData p s"
  by (simp add: updateFormData_def map_add_twice)

text \<open>
  Claim C10. \<^verbatim>\<open>submitForm\<close> changes neither \<^verbatim>\<open>currentStep\<close> nor \<^verbatim>\<open>formData\<close>, whatever
  its argument: \<^verbatim>\<open>isSubmitted\<close> is the only field it writes.
\<close>

theorem submitForm_frame:
  "currentStep (submitForm d s) = currentStep s
   \<and> formData (submitForm d s) = formData s"
  by (simp add: submitForm_def)

section \<open>Submission\<close>

text \<open>
  A valid \<^verbatim>\<open>onNext\<close> merges the step's data first; on the last step it then submits,
  otherwise it moves forward.
\<close>

lemma onNext_valid:
  "onNext stps True d s =
     (if isLastStep stps s then s\<lparr>formData := formData s ++ d, isSubmitted := True\<rparr>
      else goToNextStep stps (s\<lparr>formData := formData s ++ d\<rparr>))"
  by (simp add: submitForm_def onNext_def Let_def updateFormData_def map_add_absorb)

text \<open>
  Claim C1, as stated, fails: \<^verbatim>\<open>submitForm\<close> does not merge its argument into
  \<^verbatim>\<open>formData\<close>. From the initial state, submitting the single field \<^verbatim>\<open>cvv\<close> leaves
  \<^verbatim>\<open>formData\<close> empty, where \<^verbatim>\<open>updateFormData\<close> would hold the field.
\<close>

theorem submitForm_no_merge_counterexample:
  "formData (submitForm [''cvv'' \<mapsto> ''123''] initialState)
     \<noteq> formData (updateFormData [''cvv'' \<mapsto> ''123''] initialState)"
proof
  assume "formData (submitForm [''cvv'' \<mapsto> ''123''] initialState)
     = formData (updateFormData [''cvv'' \<mapsto> ''123''] initialState)"
  then have "formData (submitForm [''cvv'' \<mapsto> ''123''] initialState) ''cvv''
     = formData (updateFormData [''cvv'' \<mapsto> ''123''] initialState) ''cvv''"
    by simp
  then show False
    by (simp add: submitForm_def updateFormData_def initialState_def)
qed

text \<open>
  Claim C1, amended. \<^verbatim>\<open>submitForm\<close> only sets \<^verbatim>\<open>isSubmitted\<close> to true. The merge of the
  final data is done by its caller: a valid \<^verbatim>\<open>onNext\<close> on the last step merges the data
  into \<^verbatim>\<open>formData\<close>, the data's keys winning, and then sets \<^verbatim>\<open>isSubmitted\<close>; on any
  other step it merges and moves forward.
\<close>

theorem submitForm_sets_flag:
  "submitForm final s = s\<lparr>isSubmitted := True\<rparr>
   \<and> onNext stps True final s =
       (if isLastStep stps s then s\<lparr>formData := formData s ++ final, isSubmitted := True\<rparr>
        else goToNextStep stps (s\<lparr>formData := formData s ++ final\<rparr>))"
  by (simp add: submitForm_def onNext_valid)

section \<open>The range of \<^verbatim>\<open>currentStep\<close>\<close>

text \<open>
  When every command is followed by a re-render the guards do their work: a run from a
  state in range stays in range.
\<close>

lemma exec_in_range:
  assumes "1 \<le> length stps" and "in_range stps s"
  shows "in_range stps (exec stps s c)"
proof (cases c)
  case GoToNextStep
  with assms show ?thesis
    by (auto simp: in_range_def goToNextStep_def isLastStep_def)
next
  case GoToPreviousStep
  with assms show ?thesis
    by (auto simp: in_range_def goToPreviousStep_def isFirstStep_def)
next
  case (UpdateFormData d)
  with assms show ?thesis by (simp add: in_range_def updateFormData_def)
next
  case (SubmitForm d)
  with assms show ?thesis by (simp add: in_range_def submitForm_def)
next
  case ResetForm
  with assms show ?thesis by (cases stps) (simp_all add: in_range_def resetForm_def)
qed

lemma run_in_range:
  "1 \<le> length stps \<Longrightarrow> in_range stps s \<Longrightarrow> in_range stps (run stps s cs)"
  by (induction cs arbitrary: s) (simp_all add: exec_in_range)

lemma initialState_in_range: "1 \<le> length stps \<Longrightarrow> in_range stps initialState"
  by (cases stps) (simp_all add: in_range_def initialState_def)

text \<open>
  The operations on a single state are the handlers called on the state they were
  rendered from.
\<close>

lemma goToNextStep_fresh: "goToNextStep_from stps s s = goToNextStep stps s"
  by (simp add: goToNextStep_from_def goToNextStep_def)

lemma goToPreviousStep_fresh: "goToPreviousStep_from s s = goToPreviousStep s"
  by (simp add: goToPreviousStep_from_def goToPreviousStep_def)

lemma exec_fresh: "exec_from stps s s c = exec stps s c"
  by (cases c) (simp_all add: goToNextStep_fresh goToPreviousStep_fresh)

lemma onNext_fresh: "onNext_from stps s isValid d s = onNext stps isValid d s"
  by (simp add: onNext_from_def onNext_def goToNextStep_from_def goToNextStep_def
      updateFormData_def isLastStep_def Let_def)

text \<open>
  Claim C2 does not hold of the code. The guards of \<^verbatim>\<open>goToNextStep\<close> and
  \<^verbatim>\<open>goToPreviousStep\<close> read the \<^verbatim>\<open>isLastStep\<close> and \<^verbatim>\<open>isFirstStep\<close> of their render, the
  updaters count from the pending value. Three calls of \<^verbatim>\<open>goToNextStep\<close> on the handlers
  of the first render pass the guard three times and leave \<^verbatim>\<open>currentStep\<close> at 3, above
  the last index 2; two calls of \<^verbatim>\<open>goToPreviousStep\<close> on the handlers of the render at
  step 1 leave it at -1.
\<close>

theorem calls_leave_range:
  "currentStep (calls steps initialState initialState
       [GoToNextStep, GoToNextStep, GoToNextStep]) = 3
   \<and> int (length steps) - 1 = 2
   \<and> currentStep (run steps initialState [GoToNextStep]) = 1
   \<and> currentStep (calls steps (run steps initialState [GoToNextStep])
         (run steps initialState [GoToNextStep])
         [GoToPreviousStep, GoToPreviousStep]) = - 1"
  by (simp add: goToNextStep_from_def goToPreviousStep_from_def goToNextStep_def
      isLastStep_def isFirstStep_def initialState_def steps_def)

section \<open>The schema of the current step\<close>

text \<open>
  Claim C9 does not hold of the code. From the initial state a valid Next leads to the
  render at step 1. Two clicks on Next in that render start two \<^verbatim>\<open>onNext\<close> that both
  see \<^verbatim>\<open>isLastStep\<close> false; after both have gone on, \<^verbatim>\<open>currentStep\<close> is 3, the form is
  not submitted, and in the render of that state \<^verbatim>\<open>stepSchemas[currentStep]\<close> is
  \<^verbatim>\<open>undefined\<close>.
\<close>

theorem getCurrentStepSchema_undefined:
  "let r1 = onNext steps True scenario_personal initialState;
       p1 = onNext_from steps r1 True scenario_professional r1;
       p2 = onNext_from steps r1 True scenario_professional p1
   in currentStep r1 = 1 \<and> nextShown r1
      \<and> currentStep p2 = 3 \<and> \<not> isSubmitted p2
      \<and> getCurrentStepSchema p2 = None"
  by (simp add: Let_def onNext_def onNext_from_def goToNextStep_def goToNextStep_from_def
      updateFormData_def isLastStep_def initialState_def steps_def nextShown_def
      getCurrentStepSchema_def stepSchemas_def)

section \<open>The submission gate of the component\<close>

text \<open>
  What the code does ensure: an \<^verbatim>\<open>onNext\<close> that raises \<^verbatim>\<open>isSubmitted\<close> passed validation
  and was created by a render on the last step. Nothing ties the pending
  \<^verbatim>\<open>currentStep\<close> to that render.
\<close>

lemma onNext_from_submits:
  assumes "isSubmitted (onNext_from stps r isValid d p)" and "\<not> isSubmitted p"
  shows "isValid \<and> isLastStep stps r"
  using assms
  by (auto simp: onNext_from_def Let_def goToNextStep_from_def updateFormData_def
      split: if_splits)

text \<open>
  Claim C7 does not hold of the code. Two valid Next events lead from the initial state
  to the render at step 2, which shows Submit and an enabled Previous. A click on Submit
  starts \<^verbatim>\<open>onNext\<close>, which waits for \<^verbatim>\<open>trigger()\<close>; a click on Previous moves the
  pending state to step 1; \<^verbatim>\<open>onNext\<close> then goes on with the \<^verbatim>\<open>isLastStep\<close> of its
  render, true, and submits: \<^verbatim>\<open>isSubmitted\<close> becomes true while \<^verbatim>\<open>currentStep\<close> is 1,
  not the last index.
\<close>

theorem submit_off_last_step:
  "let r2 = onNext steps True scenario_professional
              (onNext steps True scenario_personal initialState);
       p1 = onPrevious_from r2 r2;
       p2 = onNext_from steps r2 True scenario_billing p1
   in currentStep r2 = 2 \<and> nextShown r2 \<and> previousEnabled r2
      \<and> currentStep p1 = 1 \<and> \<not> isSubmitted p1
      \<and> isSubmitted p2 \<and> currentStep p2 = 1 \<and> \<not> isLastStep steps p2"
  by (simp add: Let_def onNext_def onNext_from_def onPrevious_from_def goToNextStep_def
      goToPreviousStep_from_def updateFormData_def submitForm_def isLastStep_def
      isFirstStep_def initialState_def steps_def nextShown_def previousEnabled_def)

section \<open>The scenario, step by step\<close>

lemmas hook_defs =
  initialState_def goToNextStep_def goToPreviousStep_def updateFormData_def
  submitForm_def resetForm_def isFirstStep_def isLastStep_def steps_def

lemma scenario_2:
  "run steps initialState (take 2 scenario)
     = \<lparr>currentStep = 1, formData = scenario_personal, isSubmitted = False\<rparr>"
  by (simp add: scenario_def hook_defs)

lemma scenario_3:
  "run steps initialState (take 3 scenario)
     = \<lparr>currentStep = 0, formData = scenario_personal, isSubmitted = False\<rparr>"
  by (simp add: scenario_def hook_defs)

lemma scenario_6:
  "run steps initialState (take 6 scenario)
     = \<lparr>currentStep = 2, formData = scenario_personal ++ scenario_professional,
        isSubmitted = False\<rparr>"
  by (simp add: scenario_def hook_defs)

lemma scenario_7:
  "run steps initialState (take 7 scenario)
     = \<lparr>currentStep = 2, formData = scenario_personal ++ scenario_professional,
        isSubmitted = True\<rparr>"
  by (simp add: scenario_def hook_defs)

lemma scenario_8: "run steps initialState scenario = initialState"
  by (simp add: scenario_def hook_defs)

lemma card_personal: "card (dom scenario_personal) = 4"
  by (simp add: scenario_personal_def)

lemma card_professional: "card (dom (scenario_personal ++ scenario_professional)) = 8"
  by (simp add: scenario_personal_def scenario_professional_def)

lemma card_billing:
  "card (dom (scenario_personal ++ scenario_professional ++ scenario_billing)) = 12"
  by (simp add: scenario_personal_def scenario_professional_def scenario_billing_def)

text \<open>
  Claim C8, as stated, fails at the submit check: after \<^verbatim>\<open>submitForm\<close> of the four
  billing fields \<^verbatim>\<open>formData\<close> does not have 12 keys.
\<close>

theorem scenario_submit_counterexample:
  "card (dom (formData (run steps initialState (take 7 scenario)))) \<noteq> 12"
proof -
  have "card (dom (formData (run steps initialState (take 7 scenario)))) = 8"
    unfolding scenario_7 using card_professional by simp
  then show ?thesis by simp
qed

text \<open>
  Claim C8, amended. From the initial state: after merging the 4 personal fields and
  going forward, \<^verbatim>\<open>currentStep\<close> is 1 and \<^verbatim>\<open>formData\<close> holds exactly those 4 keys; after
  going back, \<^verbatim>\<open>currentStep\<close> is 0 and \<^verbatim>\<open>formData\<close> is unchanged; after going forward,
  merging the 4 professional fields and going forward, \<^verbatim>\<open>currentStep\<close> is 2 and
  \<^verbatim>\<open>formData\<close> has 8 keys; after \<^verbatim>\<open>submitForm\<close> of the 4 billing fields
  \<^verbatim>\<open>isSubmitted\<close> is true and \<^verbatim>\<open>formData\<close> still has its 8 keys; after \<^verbatim>\<open>resetForm\<close>
  the state is step 0, empty \<^verbatim>\<open>formData\<close>, not submitted.
\<close>

theorem scenario_checks:
  "currentStep (run steps initialState (take 2 scenario)) = 1
   \<and> formData (run steps initialState (take 2 scenario)) = scenario_personal
   \<and> card (dom (formData (run steps initialState (take 2 scenario)))) = 4
   \<and> currentStep (run steps initialState (take 3 scenario)) = 0
   \<and> formData (run steps initialState (take 3 scenario)) = scenario_personal
   \<and> currentStep (run steps initialState (take 6 scenario)) = 2
   \<and> card (dom (formData (run steps initialState (take 6 scenario)))) = 8
   \<and> isSubmitted (run steps initialState (take 7 scenario))
   \<and> card (dom (formData (run steps initialState (take 7 scenario)))) = 8
   \<and> run steps initialState scenario
       = \<lparr>currentStep = 0, formData = Map.empty, isSubmitted = False\<rparr>"
proof -
  have "card (dom (formData (run steps initialState (take 2 scenario)))) = 4"
    unfolding scenario_2 using card_personal by simp
  moreover have "card (dom (formData (run steps initialState (take 6 scenario)))) = 8"
    unfolding scenario_6 using card_professional by simp
  moreover have "card (dom (formData (run steps initialState (take 7 scenario)))) = 8"
    unfolding scenario_7 using card_professional by simp
  moreover have "run steps initialState scenario
       = \<lparr>currentStep = 0, formData = Map.empty, isSubmitted = False\<rparr>"
    unfolding scenario_8 by (simp add: initialState_def)
  ultimately show ?thesis
    by (simp only: scenario_2 scenario_3 scenario_6 scenario_7 form_state.simps simp_thms)
qed

text \<open>
  The 12 keys are reached when the billing step goes through the component's
  \<^verbatim>\<open>onNext\<close>, which merges before it submits.
\<close>

lemma scenario_onNext_submit:
  "onNext steps True scenario_billing (run steps initialState (take 6 scenario))
     = \<lparr>currentStep = 2,
        formData = scenario_personal ++ scenario_professional ++ scenario_billing,
        isSubmitted = True\<rparr>"
  unfolding scenario_6
  by (simp add: onNext_valid isLastStep_def steps_def)

end
